theory Spec2Isabelle
  imports Complex_Main
begin

section \<open>Random.hpp and Random.cpp: the sampling utility\<close>

text \<open>
  The module wraps the distributions of the C++ standard library
  (\<^verbatim>\<open><random>\<close>, \<^verbatim>\<open><algorithm>\<close>, \<^verbatim>\<open><cmath>\<close>).  Those are not code of the
  repository, so they enter the model as parameters: a record of functions
  that take the distribution's arguments and the generator state and give the
  drawn value and the advanced generator state.  What the code relies on of
  them is written as contract predicates further down; every member function
  of \<^verbatim>\<open>RandomBase\<close> is translated line by line on top of the record.
\<close>

subsection \<open>Assertions and undefined behaviour\<close>

text \<open>
  \<^verbatim>\<open>AssertionFailed\<close> carries the text that identifies the assertion: the
  message of a two-argument \<^verbatim>\<open>ally_assert\<close>, the condition's source text of a
  one-argument one.  \<^verbatim>\<open>UndefinedBehaviour\<close> stands for an iterator moved outside
  \<^verbatim>\<open>[begin, end]\<close> or dereferenced at \<^verbatim>\<open>end\<close>.
\<close>

datatype error = AssertionFailed string | UndefinedBehaviour

text \<open>
  An outcome is the list of assertions that fired, in order, and then either
  the error that stopped the run or the returned value.
\<close>

type_synonym 'a outcome = "string list \<times> (error + 'a)"

text \<open>
  Modelled from the spec: the macro \<^verbatim>\<open>ally_assert\<close> of \<^verbatim>\<open>Assertions.hpp\<close>, which
  is not among the sources.  The spec calls it a fail-fast assertion (a runtime
  check that terminates the process on violation) and names non-fatal builds in
  which execution goes on after the assertion has fired.  \<open>fatal\<close> is the build
  mode; \<open>rest\<close> is the code after the assertion.
\<close>

definition ally_assert :: "bool \<Rightarrow> bool \<Rightarrow> string \<Rightarrow> 'a outcome \<Rightarrow> 'a outcome" where
  "ally_assert fatal condition label rest =
     (if condition then rest
      else if fatal then ([label], Inl (AssertionFailed label))
      else (label # fst rest, snd rest))"

subsection \<open>Integral types\<close>

text \<open>
  An integral type \<open>T\<close> is its signedness and width; its values are the
  integers of its range.  \<open>static_cast\<close> is the conversion to \<open>T\<close> (modulo
  \<open>2 ^ n\<close>).
\<close>

datatype int_type = Signed nat | Unsigned nat

fun numeric_limits_min :: "int_type \<Rightarrow> int" where
  "numeric_limits_min (Signed n) = - (2 ^ (n - 1))"
| "numeric_limits_min (Unsigned n) = 0"

fun numeric_limits_max :: "int_type \<Rightarrow> int" where
  "numeric_limits_max (Signed n) = 2 ^ (n - 1) - 1"
| "numeric_limits_max (Unsigned n) = 2 ^ n - 1"

fun static_cast :: "int_type \<Rightarrow> int \<Rightarrow> int" where
  "static_cast (Signed n) v = (v + 2 ^ (n - 1)) mod 2 ^ n - 2 ^ (n - 1)"
| "static_cast (Unsigned n) v = v mod 2 ^ n"

definition int_t :: int_type where
  "int_t = Signed 32"

definition size_t :: int_type where
  "size_t = Unsigned 64"

definition ptrdiff_t :: int_type where
  "ptrdiff_t = Signed 64"

subsection \<open>Floating-point types\<close>

text \<open>
  A floating-point type \<open>T\<close> is given by its finite values, a set of reals
  (\<open>representable\<close>), by \<^verbatim>\<open>std::numeric_limits<T>::max()\<close> and by its arithmetic:
  the operators \<^verbatim>\<open>+ - * /\<close> and \<^verbatim>\<open>std::sqrt\<close> on \<open>T\<close>, whatever rounding they
  do.  Infinities and NaN are outside the model.
\<close>

record float_type =
  representable :: "real \<Rightarrow> bool"
  float_max :: real
  fl_add :: "real \<Rightarrow> real \<Rightarrow> real"
  fl_sub :: "real \<Rightarrow> real \<Rightarrow> real"
  fl_mul :: "real \<Rightarrow> real \<Rightarrow> real"
  fl_div :: "real \<Rightarrow> real \<Rightarrow> real"
  fl_sqrt :: "real \<Rightarrow> real"

subsection \<open>The standard library, as a parameter\<close>

text \<open>
  \<open>'g\<close> is the state of a random engine (\<^verbatim>\<open>std::mt19937\<close>,
  \<^verbatim>\<open>std::mt19937_64\<close>).  Every distribution object of the module is a local
  variable constructed right before its single use, so a draw is a function of
  the constructor's arguments and the generator state alone.
  \<open>std_shuffle n g\<close> is the permutation of the positions \<open>0..<n\<close> that
  \<^verbatim>\<open>std::shuffle\<close> applies to a range of \<open>n\<close> elements.
\<close>

record 'g stdlib =
  uniform_int_distribution :: "int_type \<Rightarrow> int \<Rightarrow> int \<Rightarrow> 'g \<Rightarrow> int \<times> 'g"
  uniform_real_distribution :: "float_type \<Rightarrow> real \<Rightarrow> real \<Rightarrow> 'g \<Rightarrow> real \<times> 'g"
  normal_distribution :: "float_type \<Rightarrow> real \<Rightarrow> real \<Rightarrow> 'g \<Rightarrow> real \<times> 'g"
  discrete_distribution :: "real list \<Rightarrow> 'g \<Rightarrow> nat \<times> 'g"
  std_shuffle :: "nat \<Rightarrow> 'g \<Rightarrow> nat list \<times> 'g"
  nextafter :: "float_type \<Rightarrow> real \<Rightarrow> real \<Rightarrow> real"

subsection \<open>RandomBase: the integral draws\<close>

text \<open>
  \<^verbatim>\<open>std::uniform_int_distribution<T> dis;\<close> is the default constructor, whose
  parameters are \<open>a = 0\<close> and \<open>b = numeric_limits<T>::max()\<close>
  (ISO C++, [rand.dist.uni.int]).
\<close>

definition uniform :: "'g stdlib \<Rightarrow> int_type \<Rightarrow> 'g \<Rightarrow> int \<times> 'g" where
  "uniform L T generator =
     uniform_int_distribution L T 0 (numeric_limits_max T) generator"

definition uniform_to :: "'g stdlib \<Rightarrow> int_type \<Rightarrow> int \<Rightarrow> 'g \<Rightarrow> int \<times> 'g" where
  "uniform_to L T to generator =
     uniform_int_distribution L T (static_cast T 0) to generator"

definition uniform_from_to :: "'g stdlib \<Rightarrow> int_type \<Rightarrow> int \<Rightarrow> int \<Rightarrow> 'g \<Rightarrow> int \<times> 'g" where
  "uniform_from_to L T from to generator =
     uniform_int_distribution L T from to generator"

definition probability :: "'g stdlib \<Rightarrow> int_type \<Rightarrow> 'g \<Rightarrow> int \<times> 'g" where
  "probability L T generator =
     uniform_int_distribution L T (static_cast T 0) (static_cast T 100) generator"

definition yesNo :: "'g stdlib \<Rightarrow> 'g \<Rightarrow> bool \<times> 'g" where
  "yesNo L generator =
     (let (r, generator') = uniform_from_to L int_t 0 1 generator
      in (r \<noteq> 0, generator'))"

subsection \<open>RandomBase: the floating-point draws\<close>

text \<open>
  \<^verbatim>\<open>static_cast<T>(0)\<close>, \<^verbatim>\<open>static_cast<T>(1)\<close> and \<^verbatim>\<open>1.f\<close> are exact in every
  floating-point type, so they are the reals \<open>0\<close> and \<open>1\<close>.  In
  \<^verbatim>\<open>std::nextafter(1.f, std::numeric_limits<T>::max())\<close> the arguments are
  promoted to \<open>T\<close> (to \<^verbatim>\<open>double\<close> for \<^verbatim>\<open>T = double\<close>), so the step is the one of
  \<open>T\<close>.
\<close>

definition uniformf :: "'g stdlib \<Rightarrow> float_type \<Rightarrow> 'g \<Rightarrow> real \<times> 'g" where
  "uniformf L T generator = uniform_real_distribution L T 0 1 generator"

definition uniformf_to :: "'g stdlib \<Rightarrow> float_type \<Rightarrow> real \<Rightarrow> 'g \<Rightarrow> real \<times> 'g" where
  "uniformf_to L T to generator =
     uniform_real_distribution L T 0 (nextafter L T to (float_max T)) generator"

definition uniformf_from_to :: "'g stdlib \<Rightarrow> float_type \<Rightarrow> real \<Rightarrow> real \<Rightarrow> 'g \<Rightarrow> real \<times> 'g" where
  "uniformf_from_to L T from to generator =
     uniform_real_distribution L T from to generator"

definition probabilityf :: "'g stdlib \<Rightarrow> float_type \<Rightarrow> 'g \<Rightarrow> real \<times> 'g" where
  "probabilityf L T generator =
     uniform_real_distribution L T 0 (nextafter L T 1 (float_max T)) generator"

definition normalf :: "'g stdlib \<Rightarrow> float_type \<Rightarrow> real \<Rightarrow> real \<Rightarrow> 'g \<Rightarrow> real \<times> 'g" where
  "normalf L T mean stddev generator = normal_distribution L T mean stddev generator"

definition triangularf :: "'g stdlib \<Rightarrow> float_type \<Rightarrow> real \<Rightarrow> real \<Rightarrow> real \<Rightarrow> 'g \<Rightarrow> real \<times> 'g" where
  "triangularf L T a b c generator =
     (let (u, generator') = uniformf L T generator;
          f = fl_div T (fl_sub T c a) (fl_sub T b a)
      in if u < f
         then (fl_add T a (fl_sqrt T (fl_mul T (fl_mul T u (fl_sub T b a)) (fl_sub T c a))),
               generator')
         else (fl_sub T b (fl_sqrt T (fl_mul T (fl_mul T (fl_sub T 1 u) (fl_sub T b a)) (fl_sub T b c))),
               generator'))"

text \<open>
  The spec's words for the triangular draw, given the uniform draw \<open>u\<close>:
  let \<open>f = (c-a)/(b-a)\<close>; if \<open>u < f\<close> return \<open>a + sqrt(u*(b-a)*(c-a))\<close> else
  return \<open>b - sqrt((1-u)*(b-a)*(b-c))\<close>, in the arithmetic of \<open>T\<close>.
\<close>

definition triangular_spec :: "float_type \<Rightarrow> real \<Rightarrow> real \<Rightarrow> real \<Rightarrow> real \<Rightarrow> real" where
  "triangular_spec T a b c u =
     (let f = fl_div T (fl_sub T c a) (fl_sub T b a)
      in if u < f
         then fl_add T a (fl_sqrt T (fl_mul T (fl_mul T u (fl_sub T b a)) (fl_sub T c a)))
         else fl_sub T b (fl_sqrt T (fl_mul T (fl_mul T (fl_sub T 1 u) (fl_sub T b a)) (fl_sub T b c))))"

subsection \<open>RandomBase: collections\<close>

text \<open>
  A collection is the list of its elements; an iterator is a position
  \<open>0..length\<close>, \<^verbatim>\<open>begin()\<close> being \<open>0\<close> and \<^verbatim>\<open>end()\<close> the length.
  \<^verbatim>\<open>std::advance\<close> outside \<^verbatim>\<open>[begin, end]\<close> and \<^verbatim>\<open>*it\<close> at \<^verbatim>\<open>end\<close> are undefined
  behaviour.  \<^verbatim>\<open>collection.size()\<close> is a \<^verbatim>\<open>size_t\<close>.
\<close>

definition container_size :: "'a list \<Rightarrow> int" where
  "container_size collection = static_cast size_t (int (length collection))"

definition advance :: "'a list \<Rightarrow> nat \<Rightarrow> int \<Rightarrow> nat option" where
  "advance collection it n =
     (if 0 \<le> int it + n \<and> int it + n \<le> int (length collection)
      then Some (nat (int it + n)) else None)"

definition dereference :: "'a list \<Rightarrow> nat \<Rightarrow> error + 'a" where
  "dereference collection it =
     (if it < length collection then Inr (collection ! it) else Inl UndefinedBehaviour)"

text \<open>
  \<^verbatim>\<open>weightedFrom\<close> (lines 199 to 205) and \<^verbatim>\<open>uniformFrom\<close> (lines 226 to 232) end
  with the same statements, here \<open>pick_at\<close>: take \<^verbatim>\<open>collection.begin()\<close>, advance it
  by \<^verbatim>\<open>static_cast<OffsetType>(offset)\<close>, assert that it is not
  \<^verbatim>\<open>collection.end()\<close>, return \<^verbatim>\<open>*it\<close>.  \<^verbatim>\<open>OffsetType\<close> is the iterator's
  difference type, \<^verbatim>\<open>ptrdiff_t\<close>.
\<close>

definition pick_at :: "bool \<Rightarrow> 'a list \<Rightarrow> int \<Rightarrow> 'g \<Rightarrow> ('a \<times> 'g) outcome" where
  "pick_at fatal collection offset generator =
     (case advance collection 0 (static_cast ptrdiff_t offset) of
        None \<Rightarrow> ([], Inl UndefinedBehaviour)
      | Some it \<Rightarrow>
          ally_assert fatal (it \<noteq> length collection) ''it != collection.end()''
            ([], case dereference collection it of
                   Inl e \<Rightarrow> Inl e
                 | Inr x \<Rightarrow> Inr (x, generator)))"


definition uniformFrom :: "bool \<Rightarrow> 'g stdlib \<Rightarrow> 'a list \<Rightarrow> 'g \<Rightarrow> ('a \<times> 'g) outcome" where
  "uniformFrom fatal L collection generator =
     ally_assert fatal (collection \<noteq> []) ''!collection.empty()''
       (let (offset, generator') =
              uniform_to L size_t (static_cast size_t (container_size collection - 1)) generator
        in pick_at fatal collection offset generator')"

definition shuffle :: "'g stdlib \<Rightarrow> 'a list \<Rightarrow> 'g \<Rightarrow> 'a list \<times> 'g" where
  "shuffle L elems generator =
     (let (p, generator') = std_shuffle L (length elems) generator
      in (map (\<lambda>i. elems ! i) p, generator'))"

subsection \<open>Random.cpp: the generator providers\<close>

text \<open>
  The process owns the system entropy source that \<^verbatim>\<open>std::random_device\<close> reads
  (\<open>'d\<close> is its state) and the function-local statics of the two providers:
  each \<^verbatim>\<open>s_fastGenerator\<close> is \<open>None\<close> until the first call constructs it.  The
  platform gives \<^verbatim>\<open>std::random_device::operator()\<close> and the two engines'
  constructors from a seed.
\<close>

record ('g, 'd) process =
  entropy :: 'd
  fast_s_fastGenerator :: "'g option"
  server_s_fastGenerator :: "'g option"

record ('g, 'd) platform =
  random_device :: "'d \<Rightarrow> nat \<times> 'd"
  mt19937 :: "nat \<Rightarrow> 'g"
  mt19937_64 :: "nat \<Rightarrow> 'g"

definition FastRandomTraits_generator ::
  "('g, 'd) platform \<Rightarrow> ('g, 'd) process \<Rightarrow> ('g \<times> ('g, 'd) process) outcome" where
  "FastRandomTraits_generator P s =
     (case fast_s_fastGenerator s of
        Some g \<Rightarrow> ([], Inr (g, s))
      | None \<Rightarrow>
          (let (seed, d) = random_device P (entropy s);
               g = mt19937 P seed
           in ([], Inr (g, s\<lparr>entropy := d, fast_s_fastGenerator := Some g\<rparr>))))"

definition ServerRandomTraits_generator ::
  "bool \<Rightarrow> ('g, 'd) platform \<Rightarrow> ('g, 'd) process \<Rightarrow> ('g \<times> ('g, 'd) process) outcome" where
  "ServerRandomTraits_generator fatal P s =
     ally_assert fatal False ''user server seed please!''
       (case server_s_fastGenerator s of
          Some g \<Rightarrow> ([], Inr (g, s))
        | None \<Rightarrow>
            (let (seed, d) = random_device P (entropy s);
                 g = mt19937_64 P seed
             in ([], Inr (g, s\<lparr>entropy := d, server_s_fastGenerator := Some g\<rparr>))))"

subsection \<open>What the code relies on of the library\<close>

text \<open>
  [rand.dist.uni.int]: for \<open>a \<le> b\<close> in the range of \<open>T\<close>,
  \<^verbatim>\<open>uniform_int_distribution<T>(a, b)\<close> produces integers \<open>i\<close> with
  \<open>a \<le> i \<le> b\<close>, each with probability \<open>1/(b - a + 1)\<close>: every draw is in the
  interval, and every value of the interval is drawn from some generator state.
\<close>

definition uniform_int_contract :: "'g stdlib \<Rightarrow> bool" where
  "uniform_int_contract L \<longleftrightarrow>
     (\<forall>T a b. numeric_limits_min T \<le> a \<and> a \<le> b \<and> b \<le> numeric_limits_max T \<longrightarrow>
        (\<forall>g. a \<le> fst (uniform_int_distribution L T a b g) \<and>
             fst (uniform_int_distribution L T a b g) \<le> b) \<and>
        (\<forall>v. a \<le> v \<and> v \<le> b \<longrightarrow> (\<exists>g. fst (uniform_int_distribution L T a b g) = v)))"

text \<open>
  A floating-point type has the values \<open>0\<close>, \<open>1\<close> and its maximum, which is
  above \<open>1\<close> and bounds every finite value.
\<close>

definition float_type_ok :: "float_type \<Rightarrow> bool" where
  "float_type_ok T \<longleftrightarrow>
     representable T 0 \<and> representable T 1 \<and> representable T (float_max T) \<and>
     1 < float_max T \<and> (\<forall>x. representable T x \<longrightarrow> \<bar>x\<bar> \<le> float_max T)"

text \<open>
  \<^verbatim>\<open>std::nextafter(x, y)\<close> on finite values: the next value of \<open>T\<close> after \<open>x\<close> in
  the direction of \<open>y\<close>, and \<open>y\<close> when \<open>x = y\<close>.
\<close>

definition nextafter_contract :: "'g stdlib \<Rightarrow> float_type \<Rightarrow> bool" where
  "nextafter_contract L T \<longleftrightarrow>
     (\<forall>x y. representable T x \<and> representable T y \<longrightarrow>
        (x < y \<longrightarrow> representable T (nextafter L T x y) \<and> x < nextafter L T x y \<and>
                 (\<forall>z. representable T z \<and> x < z \<longrightarrow> nextafter L T x y \<le> z)) \<and>
        (x = y \<longrightarrow> nextafter L T x y = y) \<and>
        (y < x \<longrightarrow> representable T (nextafter L T x y) \<and> nextafter L T x y < x \<and>
                 (\<forall>z. representable T z \<and> z < x \<longrightarrow> z \<le> nextafter L T x y)))"

text \<open>
  [rand.dist.uni.real]: \<^verbatim>\<open>uniform_real_distribution<T>(a, b)\<close> produces values
  \<open>x\<close> of \<open>T\<close> with \<open>a \<le> x < b\<close>.  The implementations compute
  \<open>a + p * (b - a)\<close> in the arithmetic of \<open>T\<close> from a canonical value \<open>p\<close> of
  \<open>[0, 1)\<close>, and at some bounds the rounding gives \<open>b\<close> itself.  So the contract
  is one of the distribution at given bounds \<open>a\<close> and \<open>b\<close>, assumed only where a
  function of the module draws at bounds that meet it: every draw is a value
  of \<open>T\<close> in \<open>[a, b)\<close>, the lower bound is drawn from some generator state
  (\<open>p = 0\<close>), and so is the largest value of \<open>T\<close> below \<open>b\<close>.
\<close>

definition uniform_real_contract :: "'g stdlib \<Rightarrow> float_type \<Rightarrow> real \<Rightarrow> real \<Rightarrow> bool" where
  "uniform_real_contract L T a b \<longleftrightarrow>
     (\<forall>g. representable T (fst (uniform_real_distribution L T a b g)) \<and>
          a \<le> fst (uniform_real_distribution L T a b g) \<and>
          fst (uniform_real_distribution L T a b g) < b) \<and>
     (\<exists>g. fst (uniform_real_distribution L T a b g) = a) \<and>
     (\<exists>g. \<forall>z. representable T z \<and> z < b \<longrightarrow> z \<le> fst (uniform_real_distribution L T a b g))"

text \<open>
  [rand.dist.samp.discrete]: for weights \<open>w\<^sub>0 \<dots> w\<^sub>n\<^sub>-\<^sub>1\<close> of sum \<open>S\<close>,
  \<^verbatim>\<open>discrete_distribution\<close> produces \<open>i < n\<close> with probability \<open>w\<^sub>i / S\<close>.  The
  implementations keep the table of cumulative probabilities
  \<open>(w\<^sub>0 + \<dots> + w\<^sub>k) / S\<close>, take a canonical value \<open>p\<close> of \<open>[0, 1)\<close> and return the
  index at which the table passes \<open>p\<close> (libstdc++ with \<^verbatim>\<open>std::lower_bound\<close>,
  libc++ with \<^verbatim>\<open>std::upper_bound\<close>).  The contract, for given weights, says
  that much and leaves open which end of a step belongs to it: the entries
  before the index drawn are at most \<open>p\<close>, the entry at it is at least \<open>p\<close>.
\<close>

fun partial_sums :: "real \<Rightarrow> real list \<Rightarrow> real list" where
  "partial_sums acc [] = []"
| "partial_sums acc (w # ws) = (acc + w) # partial_sums (acc + w) ws"

definition cumulative :: "real list \<Rightarrow> real list" where
  "cumulative ws = map (\<lambda>c. c / sum_list ws) (partial_sums 0 ws)"


subsection \<open>A small instance of the parameters\<close>

text \<open>
  The generator state is a counter, and the floating-point type has the
  multiples of a quarter between \<open>-8\<close> and \<open>8\<close> as its values, with rounding to
  the nearest of them.  The canonical value of a state is one of \<open>0\<close>, \<open>1/4\<close>,
  \<open>1/2\<close>, \<open>3/4\<close>.  The real draw is \<open>a + p * (b - a)\<close> in the arithmetic of the
  type, and the discrete draw is the first index whose cumulative probability
  is not below \<open>p\<close>, both as libstdc++ computes them.  The instance is used to
  run the model on concrete inputs.
\<close>

definition quarter_round :: "real \<Rightarrow> real" where
  "quarter_round x = max (- 8) (min 8 (of_int \<lfloor>4 * x + 1 / 2\<rfloor> / 4))"

definition quarters :: float_type where
  "quarters =
     \<lparr>representable = (\<lambda>x. 4 * x \<in> \<int> \<and> \<bar>x\<bar> \<le> 8),
      float_max = 8,
      fl_add = (\<lambda>x y. quarter_round (x + y)),
      fl_sub = (\<lambda>x y. quarter_round (x - y)),
      fl_mul = (\<lambda>x y. quarter_round (x * y)),
      fl_div = (\<lambda>x y. quarter_round (x / y)),
      fl_sqrt = (\<lambda>x. quarter_round (sqrt x))\<rparr>"

definition counter_canonical :: "nat \<Rightarrow> real" where
  "counter_canonical g = real (g mod 4) / 4"

definition counter_uniform_int :: "int_type \<Rightarrow> int \<Rightarrow> int \<Rightarrow> nat \<Rightarrow> int \<times> nat" where
  "counter_uniform_int T a b g = (if a + int g \<le> b then a + int g else a, Suc g)"

definition counter_uniform_real :: "float_type \<Rightarrow> real \<Rightarrow> real \<Rightarrow> nat \<Rightarrow> real \<times> nat" where
  "counter_uniform_real T a b g =
     (fl_add T a (fl_mul T (counter_canonical g) (fl_sub T b a)), Suc g)"

definition counter_discrete :: "real list \<Rightarrow> nat \<Rightarrow> nat \<times> nat" where
  "counter_discrete ws g =
     (length (takeWhile (\<lambda>c. c < counter_canonical g) (cumulative ws)), Suc g)"

definition quarter_nextafter :: "float_type \<Rightarrow> real \<Rightarrow> real \<Rightarrow> real" where
  "quarter_nextafter T x y = (if x < y then x + 1 / 4 else if y < x then x - 1 / 4 else y)"

definition counter_stdlib :: "nat stdlib" where
  "counter_stdlib =
     \<lparr>uniform_int_distribution = counter_uniform_int,
      uniform_real_distribution = counter_uniform_real,
      normal_distribution = (\<lambda>T mean stddev g. (mean, Suc g)),
      discrete_distribution = counter_discrete,
      std_shuffle = (\<lambda>n g. (rotate g [0..<n], Suc g)),
      nextafter = quarter_nextafter\<rparr>"

definition counter_platform :: "(nat, nat) platform" where
  "counter_platform =
     \<lparr>random_device = (\<lambda>d. (d mod 2 ^ 32, Suc d)),
      mt19937 = (\<lambda>seed. seed),
      mt19937_64 = (\<lambda>seed. seed)\<rparr>"

section \<open>The instance meets the contracts\<close>

lemma counter_stdlib_fields:
  "uniform_int_distribution counter_stdlib = counter_uniform_int"
  "uniform_real_distribution counter_stdlib = counter_uniform_real"
  "normal_distribution counter_stdlib = (\<lambda>T mean stddev g. (mean, Suc g))"
  "discrete_distribution counter_stdlib = counter_discrete"
  "std_shuffle counter_stdlib = (\<lambda>n g. (rotate g [0..<n], Suc g))"
  "nextafter counter_stdlib = quarter_nextafter"
  by (simp_all add: counter_stdlib_def)

lemma quarters_fields:
  "representable quarters = (\<lambda>x. 4 * x \<in> \<int> \<and> \<bar>x\<bar> \<le> 8)"
  "float_max quarters = 8"
  by (simp_all add: quarters_def)

lemma counter_uniform_int_contract: "uniform_int_contract counter_stdlib"
  unfolding uniform_int_contract_def
proof (intro allI impI conjI)
  fix T :: int_type and a b :: int and g :: nat
  assume "numeric_limits_min T \<le> a \<and> a \<le> b \<and> b \<le> numeric_limits_max T"
  then show "a \<le> fst (uniform_int_distribution counter_stdlib T a b g)"
    and "fst (uniform_int_distribution counter_stdlib T a b g) \<le> b"
    by (simp_all add: counter_stdlib_fields counter_uniform_int_def)
next
  fix T :: int_type and a b v :: int
  assume "a \<le> v \<and> v \<le> b"
  then have "fst (uniform_int_distribution counter_stdlib T a b (nat (v - a))) = v"
    by (simp add: counter_stdlib_fields counter_uniform_int_def)
  then show "\<exists>g. fst (uniform_int_distribution counter_stdlib T a b g) = v" ..
qed

lemma quarter_step:
  assumes "4 * x \<in> \<int>" and "4 * z \<in> \<int>" and "x < (z::real)"
  shows "x + 1 / 4 \<le> z"
proof -
  from assms(1) obtain i :: int where i: "4 * x = of_int i" by (auto elim: Ints_cases)
  from assms(2) obtain j :: int where j: "4 * z = of_int j" by (auto elim: Ints_cases)
  from assms(3) have "4 * x < 4 * z" by simp
  then have "(of_int i :: real) < of_int j" using i j by simp
  then have "i + 1 \<le> j" by simp
  then have "(of_int (i + 1) :: real) \<le> of_int j" by (simp only: of_int_le_iff)
  then have "4 * x + 1 \<le> 4 * z" using i j by simp
  then show ?thesis by simp
qed

lemma quarters_ok: "float_type_ok quarters"
  by (simp add: float_type_ok_def quarters_fields)

lemma quarter_nextafter_contract: "nextafter_contract counter_stdlib quarters"
  unfolding nextafter_contract_def counter_stdlib_fields quarters_fields quarter_nextafter_def
proof (intro allI impI conjI)
  fix x y z :: real
  assume xy: "(4 * x \<in> \<int> \<and> \<bar>x\<bar> \<le> 8) \<and> 4 * y \<in> \<int> \<and> \<bar>y\<bar> \<le> 8"
  {
    assume lt: "x < y"
    from xy have "4 * (x + 1 / 4) = 4 * x + 1" by simp
    then show "4 * (if x < y then x + 1 / 4 else if y < x then x - 1 / 4 else y) \<in> \<int>"
      using xy lt by simp
    from quarter_step [of x y] xy lt have "x + 1 / 4 \<le> y" by simp
    then show "\<bar>if x < y then x + 1 / 4 else if y < x then x - 1 / 4 else y\<bar> \<le> 8"
      using xy lt by (simp add: abs_le_iff)
    show "x < (if x < y then x + 1 / 4 else if y < x then x - 1 / 4 else y)"
      using lt by simp
    assume "(4 * z \<in> \<int> \<and> \<bar>z\<bar> \<le> 8) \<and> x < z"
    then show "(if x < y then x + 1 / 4 else if y < x then x - 1 / 4 else y) \<le> z"
      using quarter_step [of x z] xy lt by simp
  }
  {
    assume "x = y"
    then show "(if x < y then x + 1 / 4 else if y < x then x - 1 / 4 else y) = y" by simp
  }
  {
    assume gt: "y < x"
    from xy have "4 * (x - 1 / 4) = 4 * x - 1" by simp
    then show "4 * (if x < y then x + 1 / 4 else if y < x then x - 1 / 4 else y) \<in> \<int>"
      using xy gt by simp
    from quarter_step [of y x] xy gt have "y \<le> x - 1 / 4" by simp
    then show "\<bar>if x < y then x + 1 / 4 else if y < x then x - 1 / 4 else y\<bar> \<le> 8"
      using xy gt by (simp add: abs_le_iff)
    show "(if x < y then x + 1 / 4 else if y < x then x - 1 / 4 else y) < x"
      using gt by simp
    assume "(4 * z \<in> \<int> \<and> \<bar>z\<bar> \<le> 8) \<and> z < x"
    then show "z \<le> (if x < y then x + 1 / 4 else if y < x then x - 1 / 4 else y)"
      using quarter_step [of z x] xy gt by simp
  }
qed


lemma quarter_round_exact:
  "quarter_round 0 = 0" "quarter_round (1 / 4) = 1 / 4" "quarter_round (1 / 2) = 1 / 2"
  "quarter_round (3 / 4) = 3 / 4" "quarter_round 1 = 1" "quarter_round (5 / 4) = 5 / 4"
  "quarter_round 2 = 2" "quarter_round 4 = 4"
  "quarter_round (5 / 16) = 1 / 4" "quarter_round (5 / 8) = 3 / 4"
  "quarter_round (15 / 16) = 1" "quarter_round (3 / 16) = 1 / 4"
  by (simp_all add: quarter_round_def)

lemma counter_canonical_quarter: "4 * counter_canonical g = real (g mod 4)"
  by (simp add: counter_canonical_def)

lemma counter_canonical_range: "0 \<le> counter_canonical g \<and> counter_canonical g < 1"
proof -
  have "g mod 4 < 4" by simp
  then have "real (g mod 4) < 4" by linarith
  then show ?thesis by (simp add: counter_canonical_def)
qed

lemma counter_canonical_values:
  "counter_canonical 0 = 0" "counter_canonical 3 = 3 / 4"
  by (simp_all add: counter_canonical_def)

lemma counter_real_unit_draw:
  "fst (counter_uniform_real quarters 0 1 g) = counter_canonical g"
proof -
  consider "g mod 4 = 0" | "g mod 4 = 1" | "g mod 4 = 2" | "g mod 4 = 3" by arith
  then show ?thesis
    by cases (simp_all add: counter_uniform_real_def counter_canonical_def quarters_def
        quarter_round_exact)
qed

lemma counter_real_unit_contract: "uniform_real_contract counter_stdlib quarters 0 1"
proof -
  have within: "representable quarters (counter_canonical g) \<and> 0 \<le> counter_canonical g \<and>
      counter_canonical g < 1" for g
    using counter_canonical_range [of g]
    by (simp add: quarters_fields counter_canonical_quarter abs_le_iff)
  have low: "\<exists>g. counter_canonical g = 0" using counter_canonical_values(1) by blast
  have "\<forall>z. representable quarters z \<and> z < 1 \<longrightarrow> z \<le> counter_canonical 3"
  proof (intro allI impI)
    fix z :: real
    assume "representable quarters z \<and> z < 1"
    then have "z + 1 / 4 \<le> 1" by (intro quarter_step) (simp_all add: quarters_fields)
    then show "z \<le> counter_canonical 3" by (simp add: counter_canonical_values)
  qed
  then have top: "\<exists>g. \<forall>z. representable quarters z \<and> z < 1 \<longrightarrow> z \<le> counter_canonical g" ..
  show ?thesis
    unfolding uniform_real_contract_def counter_stdlib_fields counter_real_unit_draw
    using within low top by blast
qed

lemma quarter_nextafter_one: "nextafter counter_stdlib quarters 1 (float_max quarters) = 5 / 4"
  by (simp add: counter_stdlib_fields quarters_fields quarter_nextafter_def)

lemma counter_real_closed_draw:
  "fst (counter_uniform_real quarters 0 (5 / 4) g) =
     (if g mod 4 = 0 then 0 else if g mod 4 = 1 then 1 / 4
      else if g mod 4 = 2 then 3 / 4 else 1)"
proof -
  consider "g mod 4 = 0" | "g mod 4 = 1" | "g mod 4 = 2" | "g mod 4 = 3" by arith
  then show ?thesis
    by cases (simp_all add: counter_uniform_real_def counter_canonical_def quarters_def
        quarter_round_exact)
qed

lemma counter_real_closed_within:
  "representable quarters (fst (counter_uniform_real quarters 0 (5 / 4) g)) \<and>
   0 \<le> fst (counter_uniform_real quarters 0 (5 / 4) g) \<and>
   fst (counter_uniform_real quarters 0 (5 / 4) g) < 5 / 4"
proof -
  consider "g mod 4 = 0" | "g mod 4 = 1" | "g mod 4 = 2" | "g mod 4 = 3" by arith
  then show ?thesis
    by cases (simp_all add: counter_real_closed_draw quarters_fields)
qed

lemma counter_real_closed_contract:
  "uniform_real_contract counter_stdlib quarters 0 (nextafter counter_stdlib quarters 1 (float_max quarters))"
proof -
  have zero: "fst (counter_uniform_real quarters 0 (5 / 4) 0) = 0"
    by (simp add: counter_real_closed_draw)
  have three: "fst (counter_uniform_real quarters 0 (5 / 4) 3) = 1"
    by (simp add: counter_real_closed_draw)
  have top: "z \<le> fst (counter_uniform_real quarters 0 (5 / 4) 3)"
    if "representable quarters z \<and> z < 5 / 4" for z
  proof -
    from that have "z + 1 / 4 \<le> 5 / 4" by (intro quarter_step) (simp_all add: quarters_fields)
    then show ?thesis by (simp add: three)
  qed
  show ?thesis
    unfolding quarter_nextafter_one
    unfolding uniform_real_contract_def counter_stdlib_fields
  proof (intro conjI allI)
    fix g :: nat
    show "representable quarters (fst (counter_uniform_real quarters 0 (5 / 4) g))"
      and "0 \<le> fst (counter_uniform_real quarters 0 (5 / 4) g)"
      and "fst (counter_uniform_real quarters 0 (5 / 4) g) < 5 / 4"
      using counter_real_closed_within [of g] by simp_all
  next
    show "\<exists>g. fst (counter_uniform_real quarters 0 (5 / 4) g) = 0" using zero ..
  next
    have "\<forall>z. representable quarters z \<and> z < 5 / 4 \<longrightarrow>
            z \<le> fst (counter_uniform_real quarters 0 (5 / 4) 3)"
      using top by blast
    then show "\<exists>g. \<forall>z. representable quarters z \<and> z < 5 / 4 \<longrightarrow>
            z \<le> fst (counter_uniform_real quarters 0 (5 / 4) g)" ..
  qed
qed






section \<open>The integral draws\<close>

lemma zero_in_range: "numeric_limits_min T \<le> 0 \<and> 0 \<le> numeric_limits_max T"
  by (cases T) simp_all

lemma uniform_int_draw_bounds:
  assumes "uniform_int_contract L"
    and "numeric_limits_min T \<le> a" and "a \<le> b" and "b \<le> numeric_limits_max T"
  shows "a \<le> fst (uniform_int_distribution L T a b g)"
    and "fst (uniform_int_distribution L T a b g) \<le> b"
  using assms unfolding uniform_int_contract_def by blast+

lemma uniform_int_draw_support:
  assumes "uniform_int_contract L"
    and "numeric_limits_min T \<le> a" and "a \<le> v" and "v \<le> b" and "b \<le> numeric_limits_max T"
  shows "\<exists>g. fst (uniform_int_distribution L T a b g) = v"
proof -
  have "numeric_limits_min T \<le> a \<and> a \<le> b \<and> b \<le> numeric_limits_max T"
    using assms by simp
  with assms(1) have "\<forall>v. a \<le> v \<and> v \<le> b \<longrightarrow> (\<exists>g. fst (uniform_int_distribution L T a b g) = v)"
    unfolding uniform_int_contract_def by blast
  with assms(3,4) show ?thesis by blast
qed

text \<open>
  C1, as amended.  \<^verbatim>\<open>uniform<T>()\<close> draws from a default-constructed
  \<^verbatim>\<open>std::uniform_int_distribution<T>\<close>, whose interval is
  \<open>[0, numeric_limits<T>::max()]\<close>: every result is in that interval, so it is
  never negative, and every value of the interval is the result for some
  generator state.
\<close>

theorem uniform_default_range:
  assumes "uniform_int_contract L"
  shows "0 \<le> fst (uniform L T g) \<and> fst (uniform L T g) \<le> numeric_limits_max T \<and>
         (\<forall>v. 0 \<le> v \<and> v \<le> numeric_limits_max T \<longrightarrow> (\<exists>g0. fst (uniform L T g0) = v))"
proof (intro conjI allI impI)
  show "0 \<le> fst (uniform L T g)"
    unfolding uniform_def
    using uniform_int_draw_bounds(1) [OF assms, of T 0 "numeric_limits_max T" g] zero_in_range [of T]
    by simp
  show "fst (uniform L T g) \<le> numeric_limits_max T"
    unfolding uniform_def
    using uniform_int_draw_bounds(2) [OF assms, of T 0 "numeric_limits_max T" g] zero_in_range [of T]
    by simp
next
  fix v :: int
  assume "0 \<le> v \<and> v \<le> numeric_limits_max T"
  then show "\<exists>g0. fst (uniform L T g0) = v"
    unfolding uniform_def
    using uniform_int_draw_support [OF assms, of T 0 v "numeric_limits_max T"] zero_in_range [of T]
    by simp
qed

theorem uniform_default_range_witness:
  "fst (uniform counter_stdlib int_t 5) = 5 \<and> (0::int) \<le> 5 \<and> 5 \<le> numeric_limits_max int_t \<and>
   (\<exists>g0. fst (uniform counter_stdlib int_t g0) = 7)"
  using uniform_default_range [OF counter_uniform_int_contract, of int_t 5]
  by (simp add: uniform_def counter_stdlib_fields counter_uniform_int_def int_t_def)

text \<open>
  C1 as the spec states it fails: \<open>-1\<close> is a value of \<^verbatim>\<open>int\<close>, and no generator
  state makes \<^verbatim>\<open>uniform<int>()\<close> return it.
\<close>

theorem uniform_default_negative_counterexample:
  "uniform_int_contract counter_stdlib \<and>
   numeric_limits_min int_t \<le> - 1 \<and> - 1 \<le> numeric_limits_max int_t \<and>
   \<not> (\<exists>g. fst (uniform counter_stdlib int_t g) = - 1)"
  by (simp add: counter_uniform_int_contract uniform_def counter_stdlib_fields
      counter_uniform_int_def int_t_def)

section \<open>The floating-point draws\<close>

lemma nextafter_up:
  assumes "nextafter_contract L T" and "representable T x" and "representable T y" and "x < y"
  shows "representable T (nextafter L T x y)"
    and "x < nextafter L T x y"
    and "representable T z \<Longrightarrow> x < z \<Longrightarrow> nextafter L T x y \<le> z"
  using assms unfolding nextafter_contract_def by blast+

lemma float_type_okD:
  assumes "float_type_ok T"
  shows "representable T 0" and "representable T 1" and "representable T (float_max T)"
    and "1 < float_max T" and "representable T x \<Longrightarrow> \<bar>x\<bar> \<le> float_max T"
  using assms unfolding float_type_ok_def by blast+

text \<open>
  C2.  \<^verbatim>\<open>uniformf<T>()\<close> draws from \<^verbatim>\<open>std::uniform_real_distribution<T>(0, 1)\<close>,
  whose interval is \<open>[0, 1)\<close>: every result is at least \<open>0\<close> and strictly below
  \<open>1\<close>, and \<open>0\<close> is the result for some generator state.  The comment in the
  function and the spec both give the interval as \<open>(0, 1]\<close>.
\<close>

theorem uniformf_half_open:
  assumes "uniform_real_contract L T 0 1"
  shows "0 \<le> fst (uniformf L T g) \<and> fst (uniformf L T g) < 1 \<and>
         (\<exists>g0. fst (uniformf L T g0) = 0)"
  using assms unfolding uniformf_def uniform_real_contract_def by blast

theorem uniformf_half_open_witness:
  "fst (uniformf counter_stdlib quarters 0) = 0 \<and> fst (uniformf counter_stdlib quarters 3) = 3 / 4 \<and>
   (\<exists>g0. fst (uniformf counter_stdlib quarters g0) = 0)"
  using uniformf_half_open [OF counter_real_unit_contract, of 0]
  by (simp add: uniformf_def counter_stdlib_fields counter_real_unit_draw counter_canonical_values)

text \<open>
  C3.  \<^verbatim>\<open>probabilityf<T>()\<close> draws from the half-open interval that ends at the
  next value of \<open>T\<close> above \<open>1\<close>: every result is in \<open>[0, 1]\<close>, and \<open>1\<close> is the
  result for some generator state.
\<close>

theorem probabilityf_closed_unit:
  assumes T: "float_type_ok T" and na: "nextafter_contract L T"
    and ur: "uniform_real_contract L T 0 (nextafter L T 1 (float_max T))"
  shows "0 \<le> fst (probabilityf L T g) \<and> fst (probabilityf L T g) \<le> 1 \<and>
         (\<exists>g1. fst (probabilityf L T g1) = 1)"
proof -
  let ?b = "nextafter L T 1 (float_max T)"
  let ?draw = "\<lambda>g. fst (uniform_real_distribution L T 0 ?b g)"
  note one = float_type_okD(2) [OF T]
  note step = nextafter_up [OF na one float_type_okD(3) [OF T] float_type_okD(4) [OF T]]
  have within: "representable T (?draw g) \<and> 0 \<le> ?draw g \<and> ?draw g < ?b" for g
    using ur unfolding uniform_real_contract_def by blast
  have le_one: "?draw g \<le> 1" for g
  proof (rule ccontr)
    assume "\<not> ?draw g \<le> 1"
    then have "1 < ?draw g" by simp
    with step(3) [of "?draw g"] within [of g] show False by simp
  qed
  from ur obtain g1 where top: "\<forall>z. representable T z \<and> z < ?b \<longrightarrow> z \<le> ?draw g1"
    unfolding uniform_real_contract_def by blast
  with one step(2) have "1 \<le> ?draw g1" by blast
  with le_one [of g1] have "?draw g1 = 1" by simp
  then have "\<exists>g1. ?draw g1 = 1" ..
  with within [of g] le_one [of g] show ?thesis by (simp add: probabilityf_def)
qed

theorem probabilityf_closed_unit_witness:
  "fst (probabilityf counter_stdlib quarters 3) = 1 \<and>
   fst (probabilityf counter_stdlib quarters 2) = 3 / 4 \<and>
   (\<exists>g1. fst (probabilityf counter_stdlib quarters g1) = 1)"
  using probabilityf_closed_unit
    [OF quarters_ok quarter_nextafter_contract counter_real_closed_contract, of 3]
  by (simp add: probabilityf_def counter_stdlib_fields quarter_nextafter_def quarters_fields
      counter_real_closed_draw)

text \<open>
  C6.  \<^verbatim>\<open>uniformf<T>(to)\<close> draws from the half-open interval that ends at the next
  value of \<open>T\<close> above \<open>to\<close>.  At \<open>to = 0\<close> that bound is the least positive value
  of \<open>T\<close>, here \<open>1/4\<close>, and \<open>p * (1/4)\<close> rounds up to it for the canonical value
  \<open>p = 3/4\<close>: the result is above \<open>to\<close>, outside \<open>[0, to]\<close>.
\<close>

theorem uniformf_to_zero_overshoots:
  "representable quarters 0 \<and>
   nextafter counter_stdlib quarters 0 (float_max quarters) = 1 / 4 \<and>
   uniformf_to counter_stdlib quarters 0 3 = (1 / 4, 4) \<and>
   \<not> fst (uniformf_to counter_stdlib quarters 0 3) \<le> 0"
  by (simp add: uniformf_to_def counter_stdlib_fields quarter_nextafter_def quarters_def
      counter_uniform_real_def counter_canonical_values quarter_round_exact)

text \<open>
  The steps of \<^verbatim>\<open>triangularf<T>(a, b, c)\<close> are the ones of the spec: it draws
  \<open>u = uniformf<T>()\<close> on the generator it was given, and returns what the steps
  give for that \<open>u\<close>, in the arithmetic of \<open>T\<close>, together with the generator as
  the draw left it.
\<close>

lemma triangularf_steps:
  "triangularf L T a b c generator =
     (let (u, generator') = uniformf L T generator
      in (triangular_spec T a b c u, generator'))"
  by (simp add: triangularf_def triangular_spec_def Let_def case_prod_unfold)

text \<open>
  C4.  The draw of \<^verbatim>\<open>triangularf\<close> is the one of \<^verbatim>\<open>uniformf\<close>, from \<open>[0, 1)\<close> and
  not from \<open>(0, 1]\<close>.  Here \<open>a = 0\<close>, \<open>b = 4\<close>, \<open>c = 2\<close>, and the draw is
  \<open>u = 0\<close>; the steps of the spec on that \<open>u\<close> give \<open>a\<close>, which is the result.
\<close>

theorem triangularf_zero_draw:
  "(0::real) \<le> 2 \<and> (2::real) \<le> 4 \<and> (0::real) < 4 \<and>
   fst (uniformf counter_stdlib quarters 0) = 0 \<and>
   \<not> 0 < fst (uniformf counter_stdlib quarters 0) \<and>
   triangular_spec quarters 0 4 2 0 = 0 \<and>
   triangularf counter_stdlib quarters 0 4 2 0 = (0, 1)"
  by (simp add: triangularf_def triangular_spec_def uniformf_def counter_stdlib_fields
      counter_uniform_real_def counter_canonical_values quarters_def quarter_round_exact)

section \<open>Collections\<close>

lemma ptrdiff_cast_id:
  assumes "0 \<le> v" and "v \<le> numeric_limits_max ptrdiff_t"
  shows "static_cast ptrdiff_t v = v"
proof -
  have "v + 2 ^ 63 < 2 ^ 64" using assms by (simp add: ptrdiff_t_def)
  moreover have "0 \<le> v + 2 ^ 63" using assms by simp
  ultimately have "(v + 2 ^ 63) mod 2 ^ 64 = v + 2 ^ 63" by simp
  then show ?thesis by (simp add: ptrdiff_t_def)
qed

lemma size_cast_id:
  assumes "0 \<le> v" and "v \<le> numeric_limits_max ptrdiff_t"
  shows "static_cast size_t v = v"
  using assms by (simp add: size_t_def ptrdiff_t_def)

lemma pick_at_in_range:
  assumes "0 \<le> offset" and "offset < int (length collection)"
    and "int (length collection) \<le> numeric_limits_max ptrdiff_t"
  shows "pick_at fatal collection offset generator = ([], Inr (collection ! nat offset, generator))"
proof -
  have "static_cast ptrdiff_t offset = offset"
    using ptrdiff_cast_id [of offset] assms by simp
  moreover have "advance collection 0 offset = Some (nat offset)"
    using assms by (simp add: advance_def)
  moreover have "nat offset < length collection" using assms by simp
  ultimately show ?thesis
    by (simp add: pick_at_def ally_assert_def dereference_def)
qed

lemma size_minus_one:
  assumes "collection \<noteq> []" and "int (length collection) \<le> numeric_limits_max ptrdiff_t"
  shows "static_cast size_t (container_size collection - 1) = int (length collection) - 1"
proof -
  have "container_size collection = int (length collection)"
    unfolding container_size_def using size_cast_id [of "int (length collection)"] assms by simp
  moreover have "0 \<le> int (length collection) - 1" using assms(1) by (cases collection) simp_all
  ultimately show ?thesis using size_cast_id [of "int (length collection) - 1"] assms by simp
qed

lemma uniformFrom_offset:
  assumes "uniform_int_contract L" and "collection \<noteq> []"
    and "int (length collection) \<le> numeric_limits_max ptrdiff_t"
  shows "0 \<le> fst (uniform_to L size_t (int (length collection) - 1) generator)"
    and "fst (uniform_to L size_t (int (length collection) - 1) generator) \<le> int (length collection) - 1"
proof -
  have nonneg: "0 \<le> int (length collection) - 1" using assms(2) by (cases collection) simp_all
  have top: "int (length collection) - 1 \<le> numeric_limits_max size_t"
    using assms(3) by (simp add: size_t_def ptrdiff_t_def)
  have z: "static_cast size_t 0 = 0" by (simp add: size_t_def)
  have lo: "numeric_limits_min size_t \<le> 0" by (simp add: size_t_def)
  show "0 \<le> fst (uniform_to L size_t (int (length collection) - 1) generator)"
    unfolding uniform_to_def z
    using uniform_int_draw_bounds(1) [OF assms(1) lo nonneg top] .
  show "fst (uniform_to L size_t (int (length collection) - 1) generator) \<le> int (length collection) - 1"
    unfolding uniform_to_def z
    using uniform_int_draw_bounds(2) [OF assms(1) lo nonneg top] .
qed

lemma uniformFrom_nonempty:
  assumes "uniform_int_contract L" and "collection \<noteq> []"
    and "int (length collection) \<le> numeric_limits_max ptrdiff_t"
  shows "uniformFrom fatal L collection generator =
           ([], Inr (collection ! nat (fst (uniform_to L size_t (int (length collection) - 1) generator)),
                     snd (uniform_to L size_t (int (length collection) - 1) generator)))"
proof -
  note off = uniformFrom_offset [OF assms, of generator]
  have "fst (uniform_to L size_t (int (length collection) - 1) generator) < int (length collection)"
    using off(2) by simp
  from pick_at_in_range [OF off(1) this assms(3)] show ?thesis
    by (simp add: uniformFrom_def ally_assert_def assms(2) size_minus_one [OF assms(2,3)]
        case_prod_unfold Let_def)
qed

lemma uniformFrom_empty:
  "fst (uniformFrom fatal L [] generator) \<noteq> []"
  "hd (fst (uniformFrom fatal L [] generator)) = ''!collection.empty()''"
  "\<exists>e. snd (uniformFrom fatal L [] generator) = Inl e"
  "fatal \<Longrightarrow> uniformFrom fatal L [] generator =
     ([''!collection.empty()''], Inl (AssertionFailed ''!collection.empty()''))"
  by (simp_all add: uniformFrom_def ally_assert_def pick_at_def advance_def dereference_def
      case_prod_unfold Let_def)







text \<open>
  C5.  On a non-empty collection \<^verbatim>\<open>uniformFrom\<close> draws an offset in
  \<open>[0, size - 1]\<close> with \<^verbatim>\<open>uniform(size - 1)\<close> and returns the element at that
  offset, an element of the collection; on a single-element collection that is
  its element.  On an empty collection the first assertion fires and no value
  is returned; in a fatal build the run ends there with the assertion failure.
  A collection holds at most \<^verbatim>\<open>PTRDIFF_MAX\<close> elements.
\<close>

theorem uniformFrom_picks_element:
  assumes "uniform_int_contract L"
    and "int (length collection) \<le> numeric_limits_max ptrdiff_t"
  shows "(collection \<noteq> [] \<longrightarrow>
           (\<exists>offset generator'.
              uniform_to L size_t (int (length collection) - 1) generator = (offset, generator') \<and>
              0 \<le> offset \<and> offset \<le> int (length collection) - 1 \<and>
              collection ! nat offset \<in> set collection \<and>
              uniformFrom fatal L collection generator =
                ([], Inr (collection ! nat offset, generator')))) \<and>
         (\<forall>x. collection = [x] \<longrightarrow>
           (\<exists>generator'. uniformFrom fatal L collection generator = ([], Inr (x, generator')))) \<and>
         (collection = [] \<longrightarrow>
           hd (fst (uniformFrom fatal L collection generator)) = ''!collection.empty()'' \<and>
           (\<exists>e. snd (uniformFrom fatal L collection generator) = Inl e) \<and>
           (fatal \<longrightarrow> uniformFrom fatal L collection generator =
              ([''!collection.empty()''], Inl (AssertionFailed ''!collection.empty()''))))"
proof (intro conjI impI allI)
  let ?draw = "uniform_to L size_t (int (length collection) - 1) generator"
  assume ne: "collection \<noteq> []"
  note off = uniformFrom_offset [OF assms(1) ne assms(2), of generator]
  have "nat (fst ?draw) < length collection" using off ne by simp
  then have "collection ! nat (fst ?draw) \<in> set collection" by simp
  with off uniformFrom_nonempty [OF assms(1) ne assms(2), of fatal generator]
  have "?draw = (fst ?draw, snd ?draw) \<and> 0 \<le> fst ?draw \<and>
        fst ?draw \<le> int (length collection) - 1 \<and>
        collection ! nat (fst ?draw) \<in> set collection \<and>
        uniformFrom fatal L collection generator =
          ([], Inr (collection ! nat (fst ?draw), snd ?draw))"
    by simp
  then show "\<exists>offset generator'.
      ?draw = (offset, generator') \<and> 0 \<le> offset \<and> offset \<le> int (length collection) - 1 \<and>
      collection ! nat offset \<in> set collection \<and>
      uniformFrom fatal L collection generator = ([], Inr (collection ! nat offset, generator'))"
    by blast
next
  fix x
  assume one: "collection = [x]"
  then have ne: "collection \<noteq> []" by simp
  note off = uniformFrom_offset [OF assms(1) ne assms(2), of generator]
  from off one have "nat (fst (uniform_to L size_t (int (length collection) - 1) generator)) = 0"
    by simp
  with uniformFrom_nonempty [OF assms(1) ne assms(2), of fatal generator] one
  show "\<exists>generator'. uniformFrom fatal L collection generator = ([], Inr (x, generator'))"
    by simp
next
  assume "collection = []"
  then show "hd (fst (uniformFrom fatal L collection generator)) = ''!collection.empty()''"
    and "\<exists>e. snd (uniformFrom fatal L collection generator) = Inl e"
    using uniformFrom_empty(2,3) [of fatal L generator] by simp_all
next
  assume "collection = []" and fatal
  then show "uniformFrom fatal L collection generator =
      ([''!collection.empty()''], Inl (AssertionFailed ''!collection.empty()''))"
    using uniformFrom_empty(4) [of fatal L generator] by simp
qed

theorem uniformFrom_picks_element_witness:
  "uniformFrom True counter_stdlib [10, 20, 30 :: nat] 1 = ([], Inr (20, 2)) \<and>
   uniformFrom True counter_stdlib [7 :: nat] 5 = ([], Inr (7, 6)) \<and>
   uniformFrom True counter_stdlib ([] :: nat list) 0 =
     ([''!collection.empty()''], Inl (AssertionFailed ''!collection.empty()''))"
  using uniformFrom_picks_element [OF counter_uniform_int_contract, of "[10, 20, 30 :: nat]" 1 True]
  by (simp add: uniformFrom_def ally_assert_def pick_at_def advance_def dereference_def
      container_size_def uniform_to_def counter_stdlib_fields counter_uniform_int_def
      size_t_def ptrdiff_t_def)

text \<open>
  C10.  On a non-empty collection the drawn offset is in \<open>[0, size - 1]\<close>, the
  iterator advanced by it is not \<^verbatim>\<open>end()\<close>, and the assertion
  \<^verbatim>\<open>it != collection.end()\<close> neither fires nor ends the run, in either build.
\<close>

theorem uniformFrom_end_assertion_unreachable:
  assumes "uniform_int_contract L" and "collection \<noteq> []"
    and "int (length collection) \<le> numeric_limits_max ptrdiff_t"
  shows "(let offset = fst (uniform_to L size_t
                              (static_cast size_t (container_size collection - 1)) generator)
          in 0 \<le> offset \<and> offset \<le> int (length collection) - 1 \<and>
             advance collection 0 (static_cast ptrdiff_t offset) = Some (nat offset) \<and>
             nat offset \<noteq> length collection) \<and>
         ''it != collection.end()'' \<notin> set (fst (uniformFrom fatal L collection generator)) \<and>
         snd (uniformFrom fatal L collection generator) \<noteq>
           Inl (AssertionFailed ''it != collection.end()'')"
proof -
  let ?offset = "fst (uniform_to L size_t (int (length collection) - 1) generator)"
  note off = uniformFrom_offset [OF assms, of generator]
  have top: "?offset \<le> numeric_limits_max ptrdiff_t" using off(2) assms(3) by simp
  have "advance collection 0 (static_cast ptrdiff_t ?offset) = Some (nat ?offset)"
    using off by (simp add: ptrdiff_cast_id [OF off(1) top] advance_def)
  moreover have "nat ?offset \<noteq> length collection" using off assms(2) by simp
  ultimately show ?thesis
    using off uniformFrom_nonempty [OF assms, of fatal generator]
    by (simp add: size_minus_one [OF assms(2,3)] Let_def)
qed

theorem uniformFrom_end_assertion_unreachable_witness:
  "fst (uniform_to counter_stdlib size_t 2 7) = 0 \<and>
   advance [10, 20, 30 :: nat] 0 (static_cast ptrdiff_t 0) = Some 0 \<and>
   uniformFrom False counter_stdlib [10, 20, 30 :: nat] 7 = ([], Inr (10, 8))"
  using uniformFrom_end_assertion_unreachable
    [OF counter_uniform_int_contract, of "[10, 20, 30 :: nat]" 7 False]
  by (simp add: uniformFrom_def ally_assert_def pick_at_def advance_def dereference_def
      container_size_def uniform_to_def counter_stdlib_fields counter_uniform_int_def
      size_t_def ptrdiff_t_def)

section \<open>The providers\<close>

text \<open>
  C8.  \<^verbatim>\<open>ServerRandomTraits::generator()\<close> asserts \<^verbatim>\<open>false\<close> on every call.  In a
  fatal build the run ends with that assertion failure.  In a non-fatal build
  the assertion fires and the function goes on: on the first call it seeds the
  generator from the system entropy source and returns it; on a later call it
  returns the generator constructed before.
\<close>

theorem server_generator_asserts:
  "(fatal \<longrightarrow>
      ServerRandomTraits_generator fatal P s =
        ([''user server seed please!''], Inl (AssertionFailed ''user server seed please!''))) \<and>
   (\<not> fatal \<and> server_s_fastGenerator s = None \<longrightarrow>
      (let (seed, d) = random_device P (entropy s)
       in ServerRandomTraits_generator fatal P s =
            ([''user server seed please!''],
             Inr (mt19937_64 P seed,
                  s\<lparr>entropy := d, server_s_fastGenerator := Some (mt19937_64 P seed)\<rparr>)))) \<and>
   (\<forall>g. \<not> fatal \<and> server_s_fastGenerator s = Some g \<longrightarrow>
      ServerRandomTraits_generator fatal P s = ([''user server seed please!''], Inr (g, s)))"
  by (simp add: ServerRandomTraits_generator_def ally_assert_def case_prod_unfold Let_def)

theorem server_generator_asserts_witness:
  "ServerRandomTraits_generator True counter_platform
     \<lparr>entropy = 41, fast_s_fastGenerator = None, server_s_fastGenerator = None\<rparr> =
     ([''user server seed please!''], Inl (AssertionFailed ''user server seed please!'')) \<and>
   ServerRandomTraits_generator False counter_platform
     \<lparr>entropy = 41, fast_s_fastGenerator = None, server_s_fastGenerator = None\<rparr> =
     ([''user server seed please!''],
      Inr (41, \<lparr>entropy = 42, fast_s_fastGenerator = None, server_s_fastGenerator = Some 41\<rparr>)) \<and>
   ServerRandomTraits_generator False counter_platform
     \<lparr>entropy = 42, fast_s_fastGenerator = None, server_s_fastGenerator = Some 41\<rparr> =
     ([''user server seed please!''],
      Inr (41, \<lparr>entropy = 42, fast_s_fastGenerator = None, server_s_fastGenerator = Some 41\<rparr>))"
  using server_generator_asserts [of True counter_platform
      "\<lparr>entropy = 41, fast_s_fastGenerator = None, server_s_fastGenerator = None\<rparr>"]
    server_generator_asserts [of False counter_platform
      "\<lparr>entropy = 41, fast_s_fastGenerator = None, server_s_fastGenerator = None\<rparr>"]
    server_generator_asserts [of False counter_platform
      "\<lparr>entropy = 42, fast_s_fastGenerator = None, server_s_fastGenerator = Some 41\<rparr>"]
  by (simp add: counter_platform_def)

end
